theory Spec2Isabelle
  imports Complex_Main
begin

section \<open>Billing core of the PhySO service\<close>

text \<open>
  The development embeds the billing path of the HTTP service
  (\<^verbatim>\<open>PhySO-Service/main_sync.py\<close>, its SQLite repositories and entities) and the credit
  operations of the Telegram bot (\<^verbatim>\<open>PhySO-Telegram-Bot/services/user_service.py\<close>).

  Conventions of the embedding:
  \<^item> A Python \<^verbatim>\<open>float\<close> (prices, balances, amounts) is a \<^typ>\<open>real\<close>: the arithmetic is
    exact, the rounding of binary floating point is not part of the model.
  \<^item> A Python \<^verbatim>\<open>int\<close> is an \<^typ>\<open>int\<close>, \<^verbatim>\<open>Optional[T]\<close> is \<^typ>\<open>'a option\<close>.
  \<^item> A table is the list of its rows in rowid order, each row being the entity the
    repository's row mapping returns for it. A JSON text column stands for the value it
    encodes.
  \<^item> The SQLite calls themselves do not raise: a statement either matches rows or not.
  \<^item> Values the code draws from its environment (the clock, \<^verbatim>\<open>uuid4\<close>, the outcome of
    the regression engine) are inputs of a run, collected in the record \<open>env\<close>.
  \<^item> One run of a request handler is one state transformer on the store: runs do not
    interleave.
\<close>

subsection \<open>Entities (core/entities)\<close>

type_synonym datetime = string

text \<open>\<^verbatim>\<open>core/entities/user.py\<close>, class \<^verbatim>\<open>User\<close>.\<close>

record user =
  u_id :: "int option"
  u_name :: "string option"
  u_telegram_id :: "string option"
  u_balance :: real
  u_created_at :: "datetime option"
  u_updated_at :: "datetime option"
  u_password_hash :: "string option"
  u_api_key :: "string option"

text \<open>\<^verbatim>\<open>core/entities/model.py\<close>, class \<^verbatim>\<open>Model\<close>: a PhySO configuration with its prices.\<close>

record model =
  m_id :: "int option"
  m_name :: "string option"
  m_description :: "string option"
  m_base_price :: real
  m_epoch_price :: real
  m_is_active :: bool

text \<open>\<^verbatim>\<open>core/entities/prediction.py\<close>, class \<^verbatim>\<open>Prediction\<close>, fields in the order of the class.\<close>

record prediction =
  p_id :: "int option"
  p_uuid :: string
  p_user_id :: "int option"
  p_model_id :: "int option"
  p_input_data :: "string option"
  p_y_name :: string
  p_x_names :: "string list option"
  p_epochs :: int
  p_op_names :: "string list option"
  p_free_consts_names :: "string list option"
  p_run_config :: string
  p_stop_reward :: real
  p_parallel_mode :: bool
  p_best_formula :: "string option"
  p_best_r2 :: "real option"
  p_pareto_count :: int
  p_metadata :: "(string \<times> string) list"
  p_total_cost :: "real option"
  p_status :: string
  p_created_at :: "datetime option"
  p_completed_at :: "datetime option"
  p_queue_time :: "int option"
  p_process_time :: "int option"

text \<open>\<^verbatim>\<open>core/entities/transaction.py\<close>, class \<^verbatim>\<open>Transaction\<close>.\<close>

record transaction =
  t_id :: "int option"
  t_user_id :: "int option"
  t_amount :: real
  t_description :: "string option"
  t_prediction_id :: "int option"
  t_created_at :: "datetime option"

subsection \<open>The store (infra/db)\<close>

text \<open>
  The four tables of \<^verbatim>\<open>initialize_db_sqlite.py\<close>. Every \<^verbatim>\<open>id\<close> column is
  \<^verbatim>\<open>INTEGER PRIMARY KEY AUTOINCREMENT\<close>: SQLite keeps the largest rowid ever used per table
  and gives a new row that value plus one; \<open>seq_*\<close> are those counters.
\<close>

record db =
  users :: "user list"
  models :: "model list"
  predictions :: "prediction list"
  transactions :: "transaction list"
  seq_users :: int
  seq_models :: int
  seq_predictions :: int
  seq_transactions :: int

text \<open>
  \<^verbatim>\<open>initialize_sqlite_database\<close>: three active configurations and the user \<^verbatim>\<open>admin\<close>;
  \<open>now\<close> is the \<^verbatim>\<open>CURRENT_TIMESTAMP\<close> of the insert.
\<close>

definition physo_configs :: "(string \<times> string \<times> real \<times> real) list" where
  "physo_configs =
     [(''config0'', ''Basic PhySO configuration'', 1 / 100, 1 / 1000),
      (''config1'', ''Extended PhySO configuration'', 2 / 100, 2 / 1000),
      (''config2'', ''Advanced PhySO configuration'', 3 / 100, 3 / 1000)]"

definition initialize_sqlite_database :: "datetime \<Rightarrow> db" where
  "initialize_sqlite_database now =
     \<lparr>users =
        [\<lparr>u_id = Some 1, u_name = Some ''admin'', u_telegram_id = None, u_balance = 10,
          u_created_at = Some now, u_updated_at = None, u_password_hash = None,
          u_api_key = Some ''test-api-key-123''\<rparr>],
      models =
        map (\<lambda>(i, name, description, base_price, epoch_price).
               \<lparr>m_id = Some i, m_name = Some name, m_description = Some description,
                m_base_price = base_price, m_epoch_price = epoch_price, m_is_active = True\<rparr>)
            (zip [1, 2, 3] physo_configs),
      predictions = [],
      transactions = [],
      seq_users = 1, seq_models = 3, seq_predictions = 0, seq_transactions = 0\<rparr>"

text \<open>
  \<^verbatim>\<open>SQLiteUserRepository.get_by_api_key\<close>: the first row whose \<^verbatim>\<open>api_key\<close> equals the
  argument (a \<^verbatim>\<open>NULL\<close> key equals nothing).
\<close>

definition get_by_api_key :: "string \<Rightarrow> db \<Rightarrow> user option" where
  "get_by_api_key api_key db = find (\<lambda>row. u_api_key row = Some api_key) (users db)"

text \<open>
  \<^verbatim>\<open>SQLiteUserRepository.update_balance\<close>: an absolute write of the balance of the rows
  with that id; the result is \<^verbatim>\<open>rowcount > 0\<close>.
\<close>

definition update_balance :: "int option \<Rightarrow> real \<Rightarrow> db \<Rightarrow> bool \<times> db" where
  "update_balance user_id new_balance db =
     (let hit = (\<lambda>row. user_id \<noteq> None \<and> u_id row = user_id)
      in (list_ex hit (users db),
          db\<lparr>users := map (\<lambda>row. if hit row then row\<lparr>u_balance := new_balance\<rparr> else row)
                         (users db)\<rparr>))"

text \<open>\<^verbatim>\<open>SQLiteModelRepository.get_active_model\<close>: \<^verbatim>\<open>WHERE is_active = 1 LIMIT 1\<close>.\<close>

definition get_active_model :: "db \<Rightarrow> model option" where
  "get_active_model db = find m_is_active (models db)"

text \<open>
  A list-valued column is written as \<^verbatim>\<open>json.dumps(v) if v else None\<close> and read back with
  \<^verbatim>\<open>json.loads\<close>: an empty list is stored as \<^verbatim>\<open>NULL\<close>.
\<close>

definition json_column :: "'a list option \<Rightarrow> 'a list option" where
  "json_column v = (case v of Some (x # xs) \<Rightarrow> Some (x # xs) | _ \<Rightarrow> None)"

text \<open>
  \<^verbatim>\<open>SQLitePredictionRepository.add\<close>: inserts every column but \<^verbatim>\<open>id\<close>, then sets
  \<^verbatim>\<open>prediction.id = cursor.lastrowid\<close> on the entity and returns it.
\<close>

definition prediction_add :: "prediction \<Rightarrow> db \<Rightarrow> prediction \<times> db" where
  "prediction_add prediction db =
     (let lastrowid = seq_predictions db + 1;
          row = prediction\<lparr>p_id := Some lastrowid,
                  p_x_names := json_column (p_x_names prediction),
                  p_op_names := json_column (p_op_names prediction),
                  p_free_consts_names := json_column (p_free_consts_names prediction)\<rparr>
      in (prediction\<lparr>p_id := Some lastrowid\<rparr>,
          db\<lparr>predictions := predictions db @ [row], seq_predictions := lastrowid\<rparr>))"

text \<open>
  \<^verbatim>\<open>SQLitePredictionRepository.update\<close>: the \<^verbatim>\<open>UPDATE ... SET\<close> list names eighteen
  columns, the row is selected by \<^verbatim>\<open>WHERE id = ?\<close>; the result is \<^verbatim>\<open>rowcount > 0\<close>.
\<close>

definition prediction_update :: "prediction \<Rightarrow> db \<Rightarrow> bool \<times> db" where
  "prediction_update prediction db =
     (let hit = (\<lambda>row. p_id prediction \<noteq> None \<and> p_id row = p_id prediction);
          upd = (\<lambda>row. row\<lparr>
                  p_input_data := p_input_data prediction,
                  p_y_name := p_y_name prediction,
                  p_x_names := json_column (p_x_names prediction),
                  p_epochs := p_epochs prediction,
                  p_op_names := json_column (p_op_names prediction),
                  p_free_consts_names := json_column (p_free_consts_names prediction),
                  p_run_config := p_run_config prediction,
                  p_stop_reward := p_stop_reward prediction,
                  p_parallel_mode := p_parallel_mode prediction,
                  p_best_formula := p_best_formula prediction,
                  p_best_r2 := p_best_r2 prediction,
                  p_pareto_count := p_pareto_count prediction,
                  p_metadata := p_metadata prediction,
                  p_total_cost := p_total_cost prediction,
                  p_status := p_status prediction,
                  p_completed_at := p_completed_at prediction,
                  p_queue_time := p_queue_time prediction,
                  p_process_time := p_process_time prediction\<rparr>)
      in (list_ex hit (predictions db),
          db\<lparr>predictions := map (\<lambda>row. if hit row then upd row else row) (predictions db)\<rparr>))"

text \<open>
  \<^verbatim>\<open>SQLiteTransactionRepository.add\<close>: inserts \<^verbatim>\<open>user_id, amount, description,
  prediction_id\<close>; \<^verbatim>\<open>created_at\<close> is the column default \<^verbatim>\<open>CURRENT_TIMESTAMP\<close> (\<open>now\<close>);
  the entity gets \<^verbatim>\<open>id = cursor.lastrowid\<close>.
\<close>

definition transaction_add :: "datetime \<Rightarrow> transaction \<Rightarrow> db \<Rightarrow> transaction \<times> db" where
  "transaction_add now transaction db =
     (let lastrowid = seq_transactions db + 1;
          row = transaction\<lparr>t_id := Some lastrowid, t_created_at := Some now\<rparr>
      in (transaction\<lparr>t_id := Some lastrowid\<rparr>,
          db\<lparr>transactions := transactions db @ [row], seq_transactions := lastrowid\<rparr>))"

subsection \<open>Pricing (infra/physo/physo\_service.py)\<close>

text \<open>\<^verbatim>\<open>PhySoService.calculate_cost\<close>.\<close>

definition calculate_cost :: "real \<Rightarrow> real \<Rightarrow> int \<Rightarrow> real" where
  "calculate_cost base_price epoch_price epochs = base_price + (epoch_price * real_of_int epochs)"

text \<open>
  \<^verbatim>\<open>PhySoService.train\<close> is the regression engine. Its body is a \<^verbatim>\<open>try\<close> whose handler
  returns the dictionary with \<^verbatim>\<open>'success': False\<close>; the dictionary it returns is
  \<open>physo_result\<close>. The caller awaits it inside its own \<^verbatim>\<open>try\<close>, so the outcome the caller
  sees is either a returned dictionary or an exception with its message.
\<close>

record physo_result =
  pr_success :: bool
  pr_message :: string
  pr_best_formula :: "string option"
  pr_best_r2 :: "real option"
  pr_pareto_count :: int
  pr_metadata :: "(string \<times> string) list"
  pr_pareto_csv :: "(string \<times> string) list option"

datatype train_outcome = Returned physo_result | Raised string

subsection \<open>The prediction endpoint (main\_sync.py)\<close>

text \<open>\<^verbatim>\<open>PredictionCreateRequest\<close>.\<close>

record request =
  r_user_id :: int
  r_input_data :: string
  r_y_name :: string
  r_x_names :: "string list option"
  r_epochs :: int
  r_op_names :: "string list option"
  r_free_consts_names :: "string list option"
  r_run_config :: string
  r_stop_reward :: real
  r_parallel_mode :: bool

text \<open>
  What one run of the handler takes from outside: the \<^verbatim>\<open>uuid4\<close> and \<^verbatim>\<open>datetime.now()\<close>
  defaults of the new entity, the outcome of awaiting \<^verbatim>\<open>physo_service.train\<close>, the
  measured processing time, the completion time and the store's clock.
\<close>

record env =
  e_uuid :: string
  e_created_at :: datetime
  e_train :: train_outcome
  e_process_time_ms :: int
  e_completed_at :: datetime
  e_current_timestamp :: datetime

text \<open>
  \<^verbatim>\<open>HTTPException(status_code, detail)\<close>. The detail texts of the handler are the
  constructors of \<open>detail\<close>; the two amounts of the last 402 text are kept as numbers.
\<close>

datatype detail =
    Invalid_API_key
  | API_key_does_not_match_user
  | Insufficient_balance
  | No_active_model_available
  | Insufficient_balance_Required_Available real real
  | Prediction_failed string

datatype http_exception = HTTPException (status_code: int) (detail: detail)

text \<open>\<^verbatim>\<open>PredictionResponse\<close>: the entity's fields and \<^verbatim>\<open>pareto_csv\<close>.\<close>

type_synonym prediction_response = "prediction \<times> (string \<times> string) list option"

text \<open>Python's \<^verbatim>\<open>str\<close> of an integer, for the transaction description.\<close>

fun str_nat :: "nat \<Rightarrow> string" where
  "str_nat n =
     (if n < 10 then [char_of (48 + n)] else str_nat (n div 10) @ [char_of (48 + n mod 10)])"

definition str_int :: "int \<Rightarrow> string" where
  "str_int i = (if i < 0 then ''-'' @ str_nat (nat (- i)) else str_nat (nat i))"

text \<open>
  Lines 69 to 92 of \<^verbatim>\<open>create_prediction_sync\<close>: the checks made before anything is
  written. The order is the order of the source: API key, user id, \<^verbatim>\<open>balance <= 0\<close>,
  active model, cost, \<^verbatim>\<open>balance < total_cost\<close>.
\<close>

definition authorization_gate ::
  "request \<Rightarrow> string \<Rightarrow> db \<Rightarrow> http_exception + (user \<times> model \<times> real)" where
  "authorization_gate request x_api_key db =
     (case get_by_api_key x_api_key db of
        None \<Rightarrow> Inl (HTTPException 401 Invalid_API_key)
      | Some api_user \<Rightarrow>
          if u_id api_user \<noteq> Some (r_user_id request)
          then Inl (HTTPException 403 API_key_does_not_match_user)
          else if u_balance api_user \<le> 0
          then Inl (HTTPException 402 Insufficient_balance)
          else (case get_active_model db of
                  None \<Rightarrow> Inl (HTTPException 503 No_active_model_available)
                | Some model \<Rightarrow>
                    let total_cost = calculate_cost (m_base_price model) (m_epoch_price model)
                                       (r_epochs request)
                    in if u_balance api_user < total_cost
                       then Inl (HTTPException 402
                                  (Insufficient_balance_Required_Available total_cost
                                     (u_balance api_user)))
                       else Inr (api_user, model, total_cost)))"

text \<open>
  Lines 95 to 109: the new entity in status \<^verbatim>\<open>processing\<close>, then \<^verbatim>\<open>prediction_repo.add\<close>.
  The fields not named in the constructor call take the defaults of the class.
\<close>

definition admit :: "request \<Rightarrow> user \<Rightarrow> model \<Rightarrow> env \<Rightarrow> db \<Rightarrow> prediction \<times> db" where
  "admit request api_user model env db =
     prediction_add
       \<lparr>p_id = None, p_uuid = e_uuid env, p_user_id = u_id api_user, p_model_id = m_id model,
        p_input_data = Some (r_input_data request), p_y_name = r_y_name request,
        p_x_names = r_x_names request, p_epochs = r_epochs request,
        p_op_names = r_op_names request, p_free_consts_names = r_free_consts_names request,
        p_run_config = r_run_config request, p_stop_reward = r_stop_reward request,
        p_parallel_mode = r_parallel_mode request, p_best_formula = None, p_best_r2 = None,
        p_pareto_count = 0, p_metadata = [], p_total_cost = None, p_status = ''processing'',
        p_created_at = Some (e_created_at env), p_completed_at = None, p_queue_time = None,
        p_process_time = None\<rparr>
       db"

text \<open>
  Lines 128 to 160, the rest of the \<^verbatim>\<open>try\<close> block once \<^verbatim>\<open>train\<close> has returned: the
  result fields and the cost are put on the entity, the status is \<^verbatim>\<open>completed\<close> or
  \<^verbatim>\<open>failed\<close> by the \<^verbatim>\<open>success\<close> flag, the row is updated; then the balance is written
  and the transaction is added, whatever the flag. The new balance is computed from the
  balance read by the gate. The results of \<^verbatim>\<open>update\<close> and \<^verbatim>\<open>update_balance\<close> are not
  looked at by the handler; building the response does not raise.
\<close>

definition try_block ::
  "request \<Rightarrow> user \<Rightarrow> real \<Rightarrow> prediction \<Rightarrow> physo_result \<Rightarrow> env \<Rightarrow> db
     \<Rightarrow> (http_exception + prediction_response) \<times> db" where
  "try_block request api_user total_cost pred0 physo_result env db =
     (let pred = pred0\<lparr>
            p_best_formula := pr_best_formula physo_result,
            p_best_r2 := pr_best_r2 physo_result,
            p_pareto_count := pr_pareto_count physo_result,
            p_metadata := pr_metadata physo_result,
            p_total_cost := Some total_cost,
            p_status := (if pr_success physo_result then ''completed'' else ''failed''),
            p_process_time := Some (e_process_time_ms env),
            p_completed_at := Some (e_completed_at env)\<rparr>;
          db1 = snd (prediction_update pred db);
          new_balance = u_balance api_user - total_cost;
          db2 = snd (update_balance (u_id api_user) new_balance db1);
          transaction = \<lparr>t_id = None, t_user_id = u_id api_user, t_amount = - total_cost,
            t_description = Some (''PhySO prediction '' @ p_uuid pred @ '' ('' @
                                    str_int (r_epochs request) @ '' epochs)''),
            t_prediction_id = p_id pred, t_created_at = None\<rparr>;
          db3 = snd (transaction_add (e_current_timestamp env) transaction db2)
      in (Inr (pred, pr_pareto_csv physo_result), db3))"

text \<open>
  Lines 162 to 170, the \<^verbatim>\<open>except Exception\<close> handler: the row is marked \<^verbatim>\<open>failed\<close> and
  the handler raises the 500. The exception handled here is one raised by the awaited
  call, so the entity is still as \<^verbatim>\<open>prediction_repo.add\<close> returned it; \<open>e\<close> is
  \<^verbatim>\<open>str(e)\<close>.
\<close>

definition except_block ::
  "prediction \<Rightarrow> string \<Rightarrow> env \<Rightarrow> db \<Rightarrow> (http_exception + prediction_response) \<times> db" where
  "except_block pred0 e env db =
     (let pred = pred0\<lparr>p_status := ''failed'', p_completed_at := Some (e_completed_at env),
                   p_best_formula := Some (''Error: '' @ e)\<rparr>;
          db1 = snd (prediction_update pred db)
      in (Inl (HTTPException 500 (Prediction_failed e)), db1))"

text \<open>\<^verbatim>\<open>create_prediction_sync\<close>: the result (a raised \<^verbatim>\<open>HTTPException\<close> is \<open>Inl\<close>) and the store after the run.\<close>

definition create_prediction_sync ::
  "request \<Rightarrow> string \<Rightarrow> env \<Rightarrow> db \<Rightarrow> (http_exception + prediction_response) \<times> db" where
  "create_prediction_sync request x_api_key env db =
     (case authorization_gate request x_api_key db of
        Inl exn \<Rightarrow> (Inl exn, db)
      | Inr (api_user, model, total_cost) \<Rightarrow>
          (case admit request api_user model env db of
             (pred, db1) \<Rightarrow>
               (case e_train env of
                  Returned physo_result \<Rightarrow>
                    try_block request api_user total_cost pred physo_result env db1
                | Raised e \<Rightarrow> except_block pred e env db1)))"

subsection \<open>Runs of the service and the ledger\<close>

text \<open>
  The stores the service can reach from a store \<open>db0\<close>: the prediction endpoint is the
  only handler of \<^verbatim>\<open>main_sync.py\<close> that writes (the others read), so a reachable store is
  \<open>db0\<close> after some sequence of runs of \<open>create_prediction_sync\<close>, each with any
  request, key and environment. The upload endpoint builds a request from its form fields
  and calls the same function.
\<close>

inductive reachable_from :: "db \<Rightarrow> db \<Rightarrow> bool" for db0 :: db where
  start: "reachable_from db0 db0"
| run: "reachable_from db0 db \<Longrightarrow>
        reachable_from db0 (snd (create_prediction_sync request x_api_key env db))"

text \<open>The balance of the account with a given id, and the sum of its ledger entries.\<close>

definition balance_of :: "db \<Rightarrow> int \<Rightarrow> real option" where
  "balance_of db uid = map_option u_balance (find (\<lambda>row. u_id row = Some uid) (users db))"


text \<open>The ledger entries that reference a prediction row (\<^verbatim>\<open>prediction_id = id\<close>).\<close>

definition entries_of :: "db \<Rightarrow> prediction \<Rightarrow> transaction list" where
  "entries_of db p =
     filter (\<lambda>t. p_id p \<noteq> None \<and> t_prediction_id t = p_id p) (transactions db)"

text \<open>
  Ids handed out so far: every prediction row has an id, and neither a row nor a
  reference from a transaction is above the counter of the table.
\<close>

definition ids_below_seq :: "db \<Rightarrow> bool" where
  "ids_below_seq db \<longleftrightarrow>
     list_all (\<lambda>p. case p_id p of None \<Rightarrow> False | Some i \<Rightarrow> i \<le> seq_predictions db)
       (predictions db) \<and>
     list_all (\<lambda>t. case t_prediction_id t of None \<Rightarrow> True | Some i \<Rightarrow> i \<le> seq_predictions db)
       (transactions db)"

text \<open>
  The cost the gate quotes for a prediction row (the first active model's prices at the
  row's epochs), and the settlement property of a row: exactly one ledger entry
  references it, the entry's amount is minus the row's total cost, and the total cost is
  the quoted cost.
\<close>

definition quoted_cost :: "db \<Rightarrow> prediction \<Rightarrow> real option" where
  "quoted_cost db p =
     map_option (\<lambda>m. calculate_cost (m_base_price m) (m_epoch_price m) (p_epochs p))
       (get_active_model db)"

definition charged_once :: "db \<Rightarrow> prediction \<Rightarrow> bool" where
  "charged_once db p \<longleftrightarrow>
     (case entries_of db p of
        [t] \<Rightarrow> p_total_cost p = Some (- t_amount t) \<and> p_total_cost p = quoted_cost db p
      | _ \<Rightarrow> False)"

subsection \<open>The error kinds of the specification\<close>

text \<open>
  The five rejections of the gate and the failure of the run, as the handler raises them.
  \<open>ZeroBalance\<close> and \<open>InsufficientBalance\<close> share the status code 402 and differ in
  the detail.
\<close>

definition InvalidCredential :: http_exception where
  "InvalidCredential = HTTPException 401 Invalid_API_key"

definition AccountMismatch :: http_exception where
  "AccountMismatch = HTTPException 403 API_key_does_not_match_user"

definition ZeroBalance :: http_exception where
  "ZeroBalance = HTTPException 402 Insufficient_balance"

definition NoTierAvailable :: http_exception where
  "NoTierAvailable = HTTPException 503 No_active_model_available"

definition InsufficientBalance :: "real \<Rightarrow> real \<Rightarrow> http_exception" where
  "InsufficientBalance required available =
     HTTPException 402 (Insufficient_balance_Required_Available required available)"

definition WorkExecutionFailure :: "string \<Rightarrow> http_exception" where
  "WorkExecutionFailure e = HTTPException 500 (Prediction_failed e)"

fun gate_rejection :: "http_exception \<Rightarrow> bool" where
  "gate_rejection (HTTPException code Invalid_API_key) = (code = 401)"
| "gate_rejection (HTTPException code API_key_does_not_match_user) = (code = 403)"
| "gate_rejection (HTTPException code Insufficient_balance) = (code = 402)"
| "gate_rejection (HTTPException code No_active_model_available) = (code = 503)"
| "gate_rejection (HTTPException code (Insufficient_balance_Required_Available r a)) = (code = 402)"
| "gate_rejection (HTTPException code (Prediction_failed e)) = False"

subsection \<open>Credits of the Telegram bot (services/user\_service.py)\<close>

text \<open>
  The user dictionaries of \<^verbatim>\<open>UserService.create_user\<close> (with the optional
  \<^verbatim>\<open>last_file\<close> key), the in-memory dictionary \<^verbatim>\<open>self.users\<close> and the rows appended to
  \<^verbatim>\<open>credit_history.csv\<close>. Credits are Python integers. \<^verbatim>\<open>users.json\<close> is rewritten
  from the dictionary after each change and is not a separate component of the state.
\<close>

record bot_user =
  bu_telegram_id :: string
  bu_username :: "string option"
  bu_first_name :: "string option"
  bu_name :: string
  bu_credits :: int
  bu_total_predictions :: int
  bu_created_at :: datetime
  bu_physo_user_id :: int
  bu_physo_api_key :: string
  bu_last_file :: "(string \<times> string) list option"

record user_service =
  us_users :: "string \<Rightarrow> bot_user option"
  us_credit_log :: "(datetime \<times> string \<times> int \<times> int) list"

text \<open>\<^verbatim>\<open>_append_credit_log\<close>: one row \<^verbatim>\<open>[timestamp, telegram_id, delta, new_balance]\<close>.\<close>

definition append_credit_log ::
  "datetime \<Rightarrow> string \<Rightarrow> int \<Rightarrow> int \<Rightarrow> user_service \<Rightarrow> user_service" where
  "append_credit_log utcnow telegram_id delta new_balance self =
     self\<lparr>us_credit_log := us_credit_log self @ [(utcnow, telegram_id, delta, new_balance)]\<rparr>"

text \<open>
  \<^verbatim>\<open>UserService.spend_credits\<close>: \<^verbatim>\<open>None\<close> for an unknown user and when
  \<^verbatim>\<open>user["credits"] < amount\<close>; otherwise the credits go down by \<open>amount\<close>, the
  prediction count goes up by one, the change is logged and a copy of the user is returned.
\<close>

definition spend_credits ::
  "string \<Rightarrow> int \<Rightarrow> datetime \<Rightarrow> user_service \<Rightarrow> bot_user option \<times> user_service" where
  "spend_credits telegram_id amount utcnow self =
     (case us_users self telegram_id of
        None \<Rightarrow> (None, self)
      | Some user \<Rightarrow>
          if bu_credits user < amount then (None, self)
          else
            let user' = user\<lparr>bu_credits := bu_credits user - amount,
                            bu_total_predictions := bu_total_predictions user + 1\<rparr>;
                self' = self\<lparr>us_users := (us_users self)(telegram_id \<mapsto> user')\<rparr>
            in (Some user',
                append_credit_log utcnow telegram_id (- amount) (bu_credits user') self'))"

subsection \<open>Concrete requests, environments and stores\<close>

text \<open>
  The request of the specification's scenario (user 1, 50 epochs, the defaults of
  \<^verbatim>\<open>PredictionCreateRequest\<close> elsewhere) and three environments: the engine succeeds,
  the engine returns its failure dictionary, the awaited call raises.
\<close>

definition request50 :: request where
  "request50 =
     \<lparr>r_user_id = 1, r_input_data = ''x,y'', r_y_name = ''y'', r_x_names = None,
      r_epochs = 50, r_op_names = None, r_free_consts_names = None,
      r_run_config = ''config0'', r_stop_reward = 999 / 1000, r_parallel_mode = False\<rparr>"

definition result_ok :: physo_result where
  "result_ok =
     \<lparr>pr_success = True, pr_message = ''ok'', pr_best_formula = Some ''x'',
      pr_best_r2 = Some 1, pr_pareto_count = 1, pr_metadata = [], pr_pareto_csv = None\<rparr>"

definition result_failure :: physo_result where
  "result_failure =
     \<lparr>pr_success = False, pr_message = ''error'', pr_best_formula = None,
      pr_best_r2 = None, pr_pareto_count = 0, pr_metadata = [], pr_pareto_csv = None\<rparr>"

definition env_of :: "train_outcome \<Rightarrow> env" where
  "env_of outcome =
     \<lparr>e_uuid = ''uuid-1'', e_created_at = ''t1'', e_train = outcome, e_process_time_ms = 5,
      e_completed_at = ''t2'', e_current_timestamp = ''t3''\<rparr>"

definition db_seeded :: db where
  "db_seeded = initialize_sqlite_database ''t0''"

text \<open>The seeded store with the balance of \<^verbatim>\<open>admin\<close> replaced.\<close>

definition db_with_balance :: "real \<Rightarrow> db" where
  "db_with_balance b = db_seeded\<lparr>users := map (\<lambda>row. row\<lparr>u_balance := b\<rparr>) (users db_seeded)\<rparr>"

text \<open>A bot with one user holding five credits.\<close>

definition bot_example :: user_service where
  "bot_example =
     \<lparr>us_users = Map.empty(''42'' \<mapsto>
        \<lparr>bu_telegram_id = ''42'', bu_username = None, bu_first_name = None,
         bu_name = ''User_42'', bu_credits = 5, bu_total_predictions = 0,
         bu_created_at = ''t0'', bu_physo_user_id = 1,
         bu_physo_api_key = ''test-api-key-123'', bu_last_file = None\<rparr>),
      us_credit_log = []\<rparr>"

text \<open>The seeded store after one successful run of the scenario request.\<close>

definition db_charged :: db where
  "db_charged =
     snd (create_prediction_sync request50 ''test-api-key-123'' (env_of (Returned result_ok))
            db_seeded)"

section \<open>Properties\<close>

subsection \<open>What each repository call leaves alone\<close>

lemma prediction_update_frame:
  "users (snd (prediction_update p db)) = users db"
  "models (snd (prediction_update p db)) = models db"
  "transactions (snd (prediction_update p db)) = transactions db"
  "seq_predictions (snd (prediction_update p db)) = seq_predictions db"
  "seq_transactions (snd (prediction_update p db)) = seq_transactions db"
  by (simp_all add: prediction_update_def Let_def)

lemma prediction_add_frame:
  "users (snd (prediction_add p db)) = users db"
  "models (snd (prediction_add p db)) = models db"
  "transactions (snd (prediction_add p db)) = transactions db"
  "seq_predictions (snd (prediction_add p db)) = seq_predictions db + 1"
  "seq_transactions (snd (prediction_add p db)) = seq_transactions db"
  "p_id (fst (prediction_add p db)) = Some (seq_predictions db + 1)"
  by (simp_all add: prediction_add_def Let_def)

lemma update_balance_frame:
  "models (snd (update_balance uid b db)) = models db"
  "predictions (snd (update_balance uid b db)) = predictions db"
  "transactions (snd (update_balance uid b db)) = transactions db"
  "seq_predictions (snd (update_balance uid b db)) = seq_predictions db"
  "seq_transactions (snd (update_balance uid b db)) = seq_transactions db"
  by (simp_all add: update_balance_def Let_def)

lemma update_balance_users:
  "users (snd (update_balance (Some uid) b db)) =
     map (\<lambda>row. if u_id row = Some uid then row\<lparr>u_balance := b\<rparr> else row) (users db)"
  by (simp add: update_balance_def Let_def)

lemma transaction_add_frame:
  "users (snd (transaction_add now t db)) = users db"
  "models (snd (transaction_add now t db)) = models db"
  "predictions (snd (transaction_add now t db)) = predictions db"
  "seq_predictions (snd (transaction_add now t db)) = seq_predictions db"
  "transactions (snd (transaction_add now t db)) =
     transactions db @ [t\<lparr>t_id := Some (seq_transactions db + 1), t_created_at := Some now\<rparr>]"
  by (simp_all add: transaction_add_def Let_def)

lemmas repo_frame = prediction_update_frame prediction_add_frame update_balance_frame
  transaction_add_frame

lemma gate_Inr:
  assumes "authorization_gate request k db = Inr (api_user, model, total_cost)"
  shows "get_by_api_key k db = Some api_user"
    and "u_id api_user = Some (r_user_id request)"
    and "0 < u_balance api_user"
    and "get_active_model db = Some model"
    and "total_cost = calculate_cost (m_base_price model) (m_epoch_price model) (r_epochs request)"
    and "total_cost \<le> u_balance api_user"
  using assms
  by (auto simp: authorization_gate_def Let_def split: option.splits if_splits)

lemma run_rejected:
  "authorization_gate request k db = Inl exn \<Longrightarrow>
   create_prediction_sync request k env db = (Inl exn, db)"
  by (simp add: create_prediction_sync_def)

lemma run_returned:
  "authorization_gate request k db = Inr (api_user, model, total_cost) \<Longrightarrow>
   e_train env = Returned r \<Longrightarrow>
   create_prediction_sync request k env db =
     try_block request api_user total_cost (fst (admit request api_user model env db)) r env
       (snd (admit request api_user model env db))"
  by (simp add: create_prediction_sync_def split: prod.splits)

lemma run_raised:
  "authorization_gate request k db = Inr (api_user, model, total_cost) \<Longrightarrow>
   e_train env = Raised msg \<Longrightarrow>
   create_prediction_sync request k env db =
     except_block (fst (admit request api_user model env db)) msg env
       (snd (admit request api_user model env db))"
  by (simp add: create_prediction_sync_def split: prod.splits)

lemma admit_frame:
  "users (snd (admit request api_user model env db)) = users db"
  "models (snd (admit request api_user model env db)) = models db"
  "transactions (snd (admit request api_user model env db)) = transactions db"
  "seq_predictions (snd (admit request api_user model env db)) = seq_predictions db + 1"
  "seq_transactions (snd (admit request api_user model env db)) = seq_transactions db"
  "p_id (fst (admit request api_user model env db)) = Some (seq_predictions db + 1)"
  by (simp_all add: admit_def prediction_add_frame)

lemma try_block_frame:
  "models (snd (try_block request api_user c pred r env db)) = models db"
  "seq_predictions (snd (try_block request api_user c pred r env db)) = seq_predictions db"
  "users (snd (try_block request api_user c pred r env db)) =
     users (snd (update_balance (u_id api_user) (u_balance api_user - c) db))"
  "transactions (snd (try_block request api_user c pred r env db)) =
     transactions db @
       [\<lparr>t_id = Some (seq_transactions db + 1), t_user_id = u_id api_user, t_amount = - c,
         t_description = Some (''PhySO prediction '' @ p_uuid pred @ '' ('' @
                                    str_int (r_epochs request) @ '' epochs)''),
         t_prediction_id = p_id pred, t_created_at = Some (e_current_timestamp env)\<rparr>]"
  by (simp_all add: try_block_def Let_def repo_frame update_balance_def)

lemma except_block_frame:
  "users (snd (except_block pred msg env db)) = users db"
  "models (snd (except_block pred msg env db)) = models db"
  "transactions (snd (except_block pred msg env db)) = transactions db"
  "seq_predictions (snd (except_block pred msg env db)) = seq_predictions db"
  "fst (except_block pred msg env db) = Inl (HTTPException 500 (Prediction_failed msg))"
  by (simp_all add: except_block_def Let_def repo_frame)

subsection \<open>The effect of one run\<close>

lemma admit_predictions:
  "\<exists>row. predictions (snd (admit request api_user model env db)) = predictions db @ [row] \<and>
         p_id row = Some (seq_predictions db + 1) \<and> p_epochs row = r_epochs request \<and>
         p_status row = ''processing'' \<and> p_total_cost row = None"
  by (simp add: admit_def prediction_add_def Let_def)

lemma admit_entity:
  "p_epochs (fst (admit request api_user model env db)) = r_epochs request"
  "p_uuid (fst (admit request api_user model env db)) = e_uuid env"
  by (simp_all add: admit_def prediction_add_def Let_def)

lemma prediction_update_fresh:
  assumes "\<forall>p\<in>set rows. p_id p \<noteq> p_id pred" and "p_id row = p_id pred" and "p_id pred = Some i"
    and "predictions db = rows @ [row]"
  shows "\<exists>row'. predictions (snd (prediction_update pred db)) = rows @ [row'] \<and>
           p_id row' = p_id pred \<and> p_status row' = p_status pred \<and>
           p_total_cost row' = p_total_cost pred \<and> p_epochs row' = p_epochs pred \<and>
           p_best_formula row' = p_best_formula pred"
proof -
  have "map (\<lambda>r. if p_id pred \<noteq> None \<and> p_id r = p_id pred then f r else r) rows = rows" for f
    using assms(1) by (intro map_idI) simp
  then show ?thesis
    using assms by (simp add: prediction_update_def Let_def)
qed

lemma try_block_predictions:
  "predictions (snd (try_block request api_user c pred r env db)) =
     predictions (snd (prediction_update
        (pred\<lparr>p_best_formula := pr_best_formula r, p_best_r2 := pr_best_r2 r,
            p_pareto_count := pr_pareto_count r, p_metadata := pr_metadata r,
            p_total_cost := Some c,
            p_status := (if pr_success r then ''completed'' else ''failed''),
            p_process_time := Some (e_process_time_ms env),
            p_completed_at := Some (e_completed_at env)\<rparr>) db))"
  by (simp add: try_block_def Let_def repo_frame)

lemma try_block_result:
  "\<exists>p csv. fst (try_block request api_user c pred r env db) = Inr (p, csv) \<and>
      p_total_cost p = Some c \<and> p_id p = p_id pred \<and>
      p_status p = (if pr_success r then ''completed'' else ''failed'')"
  by (simp add: try_block_def Let_def)

lemma except_block_predictions:
  "predictions (snd (except_block pred msg env db)) =
     predictions (snd (prediction_update
        (pred\<lparr>p_status := ''failed'', p_completed_at := Some (e_completed_at env),
              p_best_formula := Some (''Error: '' @ msg)\<rparr>) db))"
  by (simp add: except_block_def Let_def)



lemma run_returned_effect:
  assumes gate: "authorization_gate request k db = Inr (api_user, model, total_cost)"
    and ret: "e_train env = Returned r"
    and fresh: "\<forall>p\<in>set (predictions db). p_id p \<noteq> Some (seq_predictions db + 1)"
  shows "\<exists>row t. predictions (snd (create_prediction_sync request k env db)) = predictions db @ [row] \<and>
           p_id row = Some (seq_predictions db + 1) \<and>
           p_status row = (if pr_success r then ''completed'' else ''failed'') \<and>
           p_total_cost row = Some total_cost \<and> p_epochs row = r_epochs request \<and>
           transactions (snd (create_prediction_sync request k env db)) = transactions db @ [t] \<and>
           t_prediction_id t = Some (seq_predictions db + 1) \<and> t_amount t = - total_cost \<and>
           t_user_id t = u_id api_user"
proof -
  let ?a = "admit request api_user model env db"
  obtain row0 where r0: "predictions (snd ?a) = predictions db @ [row0]"
      "p_id row0 = Some (seq_predictions db + 1)"
    using admit_predictions by blast
  let ?pred = "(fst ?a)\<lparr>p_best_formula := pr_best_formula r, p_best_r2 := pr_best_r2 r,
            p_pareto_count := pr_pareto_count r, p_metadata := pr_metadata r,
            p_total_cost := Some total_cost,
            p_status := (if pr_success r then ''completed'' else ''failed''),
            p_process_time := Some (e_process_time_ms env),
            p_completed_at := Some (e_completed_at env)\<rparr>"
  have pid: "p_id ?pred = Some (seq_predictions db + 1)"
    by (simp add: admit_frame)
  have "\<exists>row'. predictions (snd (prediction_update ?pred (snd ?a))) = predictions db @ [row'] \<and>
           p_id row' = p_id ?pred \<and> p_status row' = p_status ?pred \<and>
           p_total_cost row' = p_total_cost ?pred \<and> p_epochs row' = p_epochs ?pred \<and>
           p_best_formula row' = p_best_formula ?pred"
    by (rule prediction_update_fresh [where i = "seq_predictions db + 1" and row = row0])
       (use fresh r0 pid in simp_all)
  then obtain row' where r': "predictions (snd (prediction_update ?pred (snd ?a))) = predictions db @ [row']"
      "p_id row' = p_id ?pred" "p_status row' = p_status ?pred"
      "p_total_cost row' = p_total_cost ?pred" "p_epochs row' = p_epochs ?pred"
    by blast
  have run: "create_prediction_sync request k env db =
     try_block request api_user total_cost (fst ?a) r env (snd ?a)"
    using gate ret by (rule run_returned)
  show ?thesis
    unfolding run try_block_predictions try_block_frame
    using r' by (simp add: admit_frame admit_entity)
qed

lemma run_raised_effect:
  assumes gate: "authorization_gate request k db = Inr (api_user, model, total_cost)"
    and ret: "e_train env = Raised msg"
    and fresh: "\<forall>p\<in>set (predictions db). p_id p \<noteq> Some (seq_predictions db + 1)"
  shows "\<exists>row. predictions (snd (create_prediction_sync request k env db)) = predictions db @ [row] \<and>
           p_id row = Some (seq_predictions db + 1) \<and> p_status row = ''failed'' \<and>
           p_total_cost row = None \<and>
           transactions (snd (create_prediction_sync request k env db)) = transactions db \<and>
           users (snd (create_prediction_sync request k env db)) = users db"
proof -
  let ?a = "admit request api_user model env db"
  obtain row0 where r0: "predictions (snd ?a) = predictions db @ [row0]"
      "p_id row0 = Some (seq_predictions db + 1)"
    using admit_predictions by blast
  let ?pred = "(fst ?a)\<lparr>p_status := ''failed'', p_completed_at := Some (e_completed_at env),
              p_best_formula := Some (''Error: '' @ msg)\<rparr>"
  have pid: "p_id ?pred = Some (seq_predictions db + 1)"
    by (simp add: admit_frame)
  have "\<exists>row'. predictions (snd (prediction_update ?pred (snd ?a))) = predictions db @ [row'] \<and>
           p_id row' = p_id ?pred \<and> p_status row' = p_status ?pred \<and>
           p_total_cost row' = p_total_cost ?pred \<and> p_epochs row' = p_epochs ?pred \<and>
           p_best_formula row' = p_best_formula ?pred"
    by (rule prediction_update_fresh [where i = "seq_predictions db + 1" and row = row0])
       (use fresh r0 pid in simp_all)
  then obtain row' where r': "predictions (snd (prediction_update ?pred (snd ?a))) = predictions db @ [row']"
      "p_id row' = p_id ?pred" "p_status row' = p_status ?pred"
      "p_total_cost row' = p_total_cost ?pred"
    by blast
  have tc: "p_total_cost (fst ?a) = None"
    by (simp add: admit_def prediction_add_def Let_def)
  have run: "create_prediction_sync request k env db = except_block (fst ?a) msg env (snd ?a)"
    using gate ret by (rule run_raised)
  show ?thesis
    unfolding run except_block_predictions except_block_frame
    using r' tc by (simp add: admit_frame)
qed

lemmas error_kinds = InvalidCredential_def AccountMismatch_def ZeroBalance_def
  NoTierAvailable_def InsufficientBalance_def WorkExecutionFailure_def

lemmas run_unfold = create_prediction_sync_def authorization_gate_def get_by_api_key_def
  get_active_model_def calculate_cost_def admit_def prediction_add_def try_block_def
  except_block_def prediction_update_def update_balance_def transaction_add_def Let_def
  json_column_def

lemmas example_unfold = db_seeded_def db_with_balance_def initialize_sqlite_database_def
  physo_configs_def request50_def env_of_def result_ok_def result_failure_def

lemma prediction_update_last:
  assumes "predictions db = rows @ [row]" and "p_id row = p_id pred" and "p_id pred = Some i"
  shows "p_id (last (predictions (snd (prediction_update pred db)))) = p_id pred"
    and "p_status (last (predictions (snd (prediction_update pred db)))) = p_status pred"
    and "p_total_cost (last (predictions (snd (prediction_update pred db)))) = p_total_cost pred"
  using assms by (simp_all add: prediction_update_def Let_def)

lemma run_returned_last:
  assumes gate: "authorization_gate request k db = Inr (api_user, model, total_cost)"
    and ret: "e_train env = Returned r"
  shows "p_id (last (predictions (snd (create_prediction_sync request k env db)))) =
           Some (seq_predictions db + 1)"
    and "p_status (last (predictions (snd (create_prediction_sync request k env db)))) =
           (if pr_success r then ''completed'' else ''failed'')"
    and "p_total_cost (last (predictions (snd (create_prediction_sync request k env db)))) =
           Some total_cost"
proof -
  let ?a = "admit request api_user model env db"
  obtain row0 where r0: "predictions (snd ?a) = predictions db @ [row0]"
      "p_id row0 = Some (seq_predictions db + 1)"
    using admit_predictions by blast
  have run: "create_prediction_sync request k env db =
     try_block request api_user total_cost (fst ?a) r env (snd ?a)"
    using gate ret by (rule run_returned)
  show "p_id (last (predictions (snd (create_prediction_sync request k env db)))) =
           Some (seq_predictions db + 1)"
    unfolding run try_block_predictions
    by (subst prediction_update_last(1) [where rows = "predictions db" and row = row0
          and i = "seq_predictions db + 1"]) (simp_all add: r0 admit_frame)
  show "p_status (last (predictions (snd (create_prediction_sync request k env db)))) =
           (if pr_success r then ''completed'' else ''failed'')"
    unfolding run try_block_predictions
    by (subst prediction_update_last(2) [where rows = "predictions db" and row = row0
          and i = "seq_predictions db + 1"]) (simp_all add: r0 admit_frame)
  show "p_total_cost (last (predictions (snd (create_prediction_sync request k env db)))) =
           Some total_cost"
    unfolding run try_block_predictions
    by (subst prediction_update_last(3) [where rows = "predictions db" and row = row0
          and i = "seq_predictions db + 1"]) (simp_all add: r0 admit_frame)
qed

lemma run_raised_last:
  assumes gate: "authorization_gate request k db = Inr (api_user, model, total_cost)"
    and ret: "e_train env = Raised msg"
  shows "p_id (last (predictions (snd (create_prediction_sync request k env db)))) =
           Some (seq_predictions db + 1)"
    and "p_status (last (predictions (snd (create_prediction_sync request k env db)))) = ''failed''"
proof -
  let ?a = "admit request api_user model env db"
  obtain row0 where r0: "predictions (snd ?a) = predictions db @ [row0]"
      "p_id row0 = Some (seq_predictions db + 1)"
    using admit_predictions by blast
  have run: "create_prediction_sync request k env db = except_block (fst ?a) msg env (snd ?a)"
    using gate ret by (rule run_raised)
  show "p_id (last (predictions (snd (create_prediction_sync request k env db)))) =
           Some (seq_predictions db + 1)"
    unfolding run except_block_predictions
    by (subst prediction_update_last(1) [where rows = "predictions db" and row = row0
          and i = "seq_predictions db + 1"]) (simp_all add: r0 admit_frame)
  show "p_status (last (predictions (snd (create_prediction_sync request k env db)))) = ''failed''"
    unfolding run except_block_predictions
    by (subst prediction_update_last(2) [where rows = "predictions db" and row = row0
          and i = "seq_predictions db + 1"]) (simp_all add: r0 admit_frame)
qed

lemma run_returned_ledger:
  assumes gate: "authorization_gate request k db = Inr (api_user, model, total_cost)"
    and ret: "e_train env = Returned r"
  shows "users (snd (create_prediction_sync request k env db)) =
           map (\<lambda>row. if u_id row = u_id api_user
                       then row\<lparr>u_balance := u_balance api_user - total_cost\<rparr> else row) (users db)"
    and "\<exists>t. transactions (snd (create_prediction_sync request k env db)) = transactions db @ [t] \<and>
           t_prediction_id t = Some (seq_predictions db + 1) \<and> t_amount t = - total_cost \<and>
           t_user_id t = u_id api_user"
    and "models (snd (create_prediction_sync request k env db)) = models db"
    and "seq_predictions (snd (create_prediction_sync request k env db)) = seq_predictions db + 1"
    and "\<exists>resp. fst (create_prediction_sync request k env db) = Inr resp"
proof -
  let ?a = "admit request api_user model env db"
  have run: "create_prediction_sync request k env db =
     try_block request api_user total_cost (fst ?a) r env (snd ?a)"
    using gate ret by (rule run_returned)
  have uid: "u_id api_user = Some (r_user_id request)"
    using gate by (rule gate_Inr)
  show "users (snd (create_prediction_sync request k env db)) =
           map (\<lambda>row. if u_id row = u_id api_user
                       then row\<lparr>u_balance := u_balance api_user - total_cost\<rparr> else row) (users db)"
    by (simp add: run try_block_frame uid update_balance_users admit_frame)
  show "\<exists>t. transactions (snd (create_prediction_sync request k env db)) = transactions db @ [t] \<and>
           t_prediction_id t = Some (seq_predictions db + 1) \<and> t_amount t = - total_cost \<and>
           t_user_id t = u_id api_user"
    by (simp add: run try_block_frame admit_frame)
  show "models (snd (create_prediction_sync request k env db)) = models db"
    by (simp add: run try_block_frame admit_frame)
  show "seq_predictions (snd (create_prediction_sync request k env db)) = seq_predictions db + 1"
    by (simp add: run try_block_frame admit_frame)
  show "\<exists>resp. fst (create_prediction_sync request k env db) = Inr resp"
    using try_block_result [of request api_user total_cost "fst ?a" r env "snd ?a"]
    by (auto simp: run)
qed

lemma run_raised_ledger:
  assumes gate: "authorization_gate request k db = Inr (api_user, model, total_cost)"
    and ret: "e_train env = Raised msg"
  shows "users (snd (create_prediction_sync request k env db)) = users db"
    and "transactions (snd (create_prediction_sync request k env db)) = transactions db"
    and "models (snd (create_prediction_sync request k env db)) = models db"
    and "seq_predictions (snd (create_prediction_sync request k env db)) = seq_predictions db + 1"
    and "fst (create_prediction_sync request k env db) = Inl (WorkExecutionFailure msg)"
  by (simp_all add: run_raised [OF gate ret] except_block_frame admit_frame
        WorkExecutionFailure_def)


lemma gate_seeded:
  "authorization_gate request50 ''test-api-key-123'' db_seeded =
     Inr (hd (users db_seeded), hd (models db_seeded), 6 / 100)"
  by (simp add: authorization_gate_def get_by_api_key_def get_active_model_def
        calculate_cost_def Let_def example_unfold)

subsection \<open>Balances and ledger sums along a run\<close>




subsection \<open>Settled rows along a run\<close>

lemma ids_below_seqD:
  assumes "ids_below_seq db"
  shows "p \<in> set (predictions db) \<Longrightarrow> \<exists>i. p_id p = Some i \<and> i \<le> seq_predictions db"
    and "t \<in> set (transactions db) \<Longrightarrow> t_prediction_id t = Some i \<Longrightarrow> i \<le> seq_predictions db"
  using assms by (auto simp: ids_below_seq_def list_all_iff split: option.splits)

lemma ids_below_seq_fresh:
  assumes "ids_below_seq db"
  shows "\<forall>p\<in>set (predictions db). p_id p \<noteq> Some (seq_predictions db + 1)"
    and "filter (\<lambda>t. t_prediction_id t = Some (seq_predictions db + 1)) (transactions db) = []"
  using ids_below_seqD [OF assms] by (fastforce simp: filter_empty_conv)+

lemma charged_once_cong:
  "entries_of db' p = entries_of db p \<Longrightarrow> models db' = models db \<Longrightarrow>
   charged_once db' p = charged_once db p"
proof -
  assume e: "entries_of db' p = entries_of db p" and m: "models db' = models db"
  have q: "quoted_cost db' p = quoted_cost db p"
    by (simp add: quoted_cost_def get_active_model_def m)
  show ?thesis
    unfolding charged_once_def e q by (rule refl)
qed

lemma run_keeps_settlement:
  assumes ids: "ids_below_seq db"
    and inv: "\<forall>p\<in>set (predictions db). p_status p = ''completed'' \<longrightarrow> charged_once db p"
  shows "ids_below_seq (snd (create_prediction_sync request k env db)) \<and>
         models (snd (create_prediction_sync request k env db)) = models db \<and>
         (\<forall>p\<in>set (predictions (snd (create_prediction_sync request k env db))).
            p_status p = ''completed'' \<longrightarrow>
            charged_once (snd (create_prediction_sync request k env db)) p) \<and>
         (\<exists>new. predictions (snd (create_prediction_sync request k env db)) =
                  predictions db @ new)"
proof (cases "authorization_gate request k db")
  case (Inl exn)
  then show ?thesis using ids inv by (simp add: run_rejected)
next
  case (Inr a)
  then obtain api_user model total_cost where
    gate: "authorization_gate request k db = Inr (api_user, model, total_cost)"
    by (cases a) auto
  let ?db' = "snd (create_prediction_sync request k env db)"
  note fresh = ids_below_seq_fresh [OF ids]
  show ?thesis
  proof (cases "e_train env")
    case (Raised msg)
    obtain row where row: "predictions ?db' = predictions db @ [row]"
        "p_id row = Some (seq_predictions db + 1)" "p_status row = ''failed''"
        "transactions ?db' = transactions db"
      using run_raised_effect [OF gate Raised fresh(1)] by blast
    note l = run_raised_ledger [OF gate Raised]
    have 1: "ids_below_seq ?db'"
      using ids_below_seqD [OF ids] row l(4)
      by (fastforce simp: ids_below_seq_def list_all_iff split: option.splits)
    have 2: "charged_once ?db' p" if "p \<in> set (predictions ?db')" "p_status p = ''completed''" for p
    proof -
      from that row have "p \<in> set (predictions db)" by auto
      moreover have "charged_once ?db' p = charged_once db p"
        by (rule charged_once_cong) (simp_all add: entries_of_def row l)
      ultimately show ?thesis using inv that by simp
    qed
    from 1 2 row(1) l(3) show ?thesis by blast
  next
    case (Returned r)
    obtain row t where row: "predictions ?db' = predictions db @ [row]"
        "p_id row = Some (seq_predictions db + 1)"
        "p_total_cost row = Some total_cost" "p_epochs row = r_epochs request"
        "transactions ?db' = transactions db @ [t]"
        "t_prediction_id t = Some (seq_predictions db + 1)" "t_amount t = - total_cost"
      using run_returned_effect [OF gate Returned fresh(1)] by blast
    note l = run_returned_ledger [OF gate Returned]
    have 1: "ids_below_seq ?db'"
      using ids_below_seqD [OF ids] row l(4)
      by (fastforce simp: ids_below_seq_def list_all_iff split: option.splits)
    have q: "quoted_cost ?db' row = Some total_cost"
      using gate_Inr(4,5) [OF gate] row(4) by (simp add: quoted_cost_def get_active_model_def l)
    have new: "charged_once ?db' row"
      using fresh(2) row q by (simp add: charged_once_def entries_of_def)
    have old: "charged_once ?db' p"
      if pin: "p \<in> set (predictions db)" and pst: "p_status p = ''completed''" for p
    proof -
      from ids_below_seqD(1) [OF ids pin]
      obtain i where "p_id p = Some i" "i \<le> seq_predictions db"
        by blast
      then have "entries_of ?db' p = entries_of db p"
        using row by (simp add: entries_of_def)
      then have "charged_once ?db' p = charged_once db p"
        by (rule charged_once_cong) (simp add: l)
      then show ?thesis using inv pin pst by simp
    qed
    have 2: "\<forall>p\<in>set (predictions ?db'). p_status p = ''completed'' \<longrightarrow> charged_once ?db' p"
      using new old by (auto simp: row(1))
    from 1 2 row(1) l(3) show ?thesis by blast
  qed
qed

lemma reachable_settlement:
  assumes "reachable_from db0 db" and "predictions db0 = []" and "transactions db0 = []"
  shows "ids_below_seq db \<and>
         (\<forall>p\<in>set (predictions db). p_status p = ''completed'' \<longrightarrow> charged_once db p)"
  using assms
proof (induction rule: reachable_from.induct)
  case start
  then show ?case by (simp add: ids_below_seq_def)
next
  case (run db request x_api_key env)
  then show ?case
    using run_keeps_settlement [of db request x_api_key env] by blast
qed

section \<open>The claims\<close>

subsection \<open>Failed work and the charge\<close>

text \<open>
  C1, as the code has it. For a request the gate admits: when the awaited engine call
  raises, the handler answers 500, the new row ends \<^verbatim>\<open>failed\<close>, and neither the users
  table nor the ledger changes. When the engine returns its dictionary, the new row ends
  \<^verbatim>\<open>completed\<close> or \<^verbatim>\<open>failed\<close> by the \<^verbatim>\<open>success\<close> flag, and in both cases the balance
  of the account is written to the old balance minus the quoted cost and one ledger entry
  of minus that cost, referencing the new row, is appended.
\<close>

theorem charge_follows_return:
  assumes gate: "authorization_gate request x_api_key db = Inr (api_user, model, total_cost)"
  shows
    "(\<forall>msg. e_train env = Raised msg \<longrightarrow>
        fst (create_prediction_sync request x_api_key env db) = Inl (WorkExecutionFailure msg) \<and>
        p_status (last (predictions (snd (create_prediction_sync request x_api_key env db))))
          = ''failed'' \<and>
        users (snd (create_prediction_sync request x_api_key env db)) = users db \<and>
        transactions (snd (create_prediction_sync request x_api_key env db)) = transactions db) \<and>
     (\<forall>r. e_train env = Returned r \<longrightarrow>
        p_status (last (predictions (snd (create_prediction_sync request x_api_key env db))))
          = (if pr_success r then ''completed'' else ''failed'') \<and>
        users (snd (create_prediction_sync request x_api_key env db)) =
          map (\<lambda>row. if u_id row = u_id api_user
                      then row\<lparr>u_balance := u_balance api_user - total_cost\<rparr> else row)
              (users db) \<and>
        (\<exists>t. transactions (snd (create_prediction_sync request x_api_key env db))
               = transactions db @ [t] \<and>
             t_prediction_id t =
               p_id (last (predictions (snd (create_prediction_sync request x_api_key env db)))) \<and>
             t_amount t = - total_cost \<and> t_user_id t = u_id api_user))"
proof (intro conjI allI impI)
  fix msg assume r: "e_train env = Raised msg"
  show "fst (create_prediction_sync request x_api_key env db) = Inl (WorkExecutionFailure msg)"
    using run_raised_ledger(5) [OF gate r] .
  show "p_status (last (predictions (snd (create_prediction_sync request x_api_key env db))))
          = ''failed''"
    using run_raised_last(2) [OF gate r] .
  show "users (snd (create_prediction_sync request x_api_key env db)) = users db"
    using run_raised_ledger(1) [OF gate r] .
  show "transactions (snd (create_prediction_sync request x_api_key env db)) = transactions db"
    using run_raised_ledger(2) [OF gate r] .
next
  fix r assume r: "e_train env = Returned r"
  show "p_status (last (predictions (snd (create_prediction_sync request x_api_key env db))))
          = (if pr_success r then ''completed'' else ''failed'')"
    using run_returned_last(2) [OF gate r] .
  show "users (snd (create_prediction_sync request x_api_key env db)) =
          map (\<lambda>row. if u_id row = u_id api_user
                      then row\<lparr>u_balance := u_balance api_user - total_cost\<rparr> else row)
              (users db)"
    using run_returned_ledger(1) [OF gate r] .
  show "\<exists>t. transactions (snd (create_prediction_sync request x_api_key env db))
               = transactions db @ [t] \<and>
             t_prediction_id t =
               p_id (last (predictions (snd (create_prediction_sync request x_api_key env db)))) \<and>
             t_amount t = - total_cost \<and> t_user_id t = u_id api_user"
    using run_returned_ledger(2) [OF gate r] run_returned_last(1) [OF gate r] by simp
qed

text \<open>
  C1 as the specification words it fails: the engine reports failure
  (\<^verbatim>\<open>'success': False\<close>) for the scenario request on the seeded store; the row ends
  \<^verbatim>\<open>failed\<close>, the balance goes from 10 to 9.94 and one entry of -0.06 references the row.
\<close>

theorem failed_run_charged_counterexample:
  "map p_status (predictions (snd (create_prediction_sync request50 ''test-api-key-123''
      (env_of (Returned result_failure)) db_seeded))) = [''failed''] \<and>
   balance_of db_seeded 1 = Some 10 \<and>
   balance_of (snd (create_prediction_sync request50 ''test-api-key-123''
      (env_of (Returned result_failure)) db_seeded)) 1 = Some (994 / 100) \<and>
   map t_amount
     (entries_of (snd (create_prediction_sync request50 ''test-api-key-123''
          (env_of (Returned result_failure)) db_seeded))
        (last (predictions (snd (create_prediction_sync request50 ''test-api-key-123''
          (env_of (Returned result_failure)) db_seeded))))) = [- (6 / 100)]"
  by (simp add: run_unfold example_unfold balance_of_def entries_of_def)

text \<open>
  Witness for C1: the scenario request on the seeded store, once with the engine call
  raising and once with the failure dictionary returned.
\<close>

theorem charge_follows_return_witness:
  "fst (create_prediction_sync request50 ''test-api-key-123'' (env_of (Raised ''boom'')) db_seeded)
     = Inl (WorkExecutionFailure ''boom'') \<and>
   p_status (last (predictions (snd (create_prediction_sync request50 ''test-api-key-123''
      (env_of (Raised ''boom'')) db_seeded)))) = ''failed'' \<and>
   users (snd (create_prediction_sync request50 ''test-api-key-123''
      (env_of (Raised ''boom'')) db_seeded)) = users db_seeded \<and>
   transactions (snd (create_prediction_sync request50 ''test-api-key-123''
      (env_of (Raised ''boom'')) db_seeded)) = [] \<and>
   p_status (last (predictions (snd (create_prediction_sync request50 ''test-api-key-123''
      (env_of (Returned result_failure)) db_seeded)))) = ''failed'' \<and>
   map u_balance (users (snd (create_prediction_sync request50 ''test-api-key-123''
      (env_of (Returned result_failure)) db_seeded))) = [994 / 100]"
proof -
  have t: "e_train (env_of (Raised ''boom'')) = Raised ''boom''"
    "e_train (env_of (Returned result_failure)) = Returned result_failure"
    "\<not> pr_success result_failure"
    by (simp_all add: env_of_def result_failure_def)
  have d: "transactions db_seeded = []" "map u_balance (users db_seeded) = [10]"
    "map u_id (users db_seeded) = [Some 1]"
    by (simp_all add: db_seeded_def initialize_sqlite_database_def)
  from charge_follows_return [OF gate_seeded, of "env_of (Raised ''boom'')"]
    charge_follows_return [OF gate_seeded, of "env_of (Returned result_failure)"] t d
  show ?thesis
    by (simp add: db_seeded_def initialize_sqlite_database_def)
qed

subsection \<open>The ledger equation\<close>



subsection \<open>Completed rows\<close>

text \<open>
  C3. In every store the service reaches from a store with no predictions and no ledger
  entries, a row in status \<^verbatim>\<open>completed\<close> is referenced by exactly one ledger entry, the
  entry's amount is minus the row's total cost, and the total cost is the cost the gate
  quoted for it; a later run appends to the predictions table and leaves the rows already
  there as they are.
\<close>

theorem completed_charged_once:
  assumes "reachable_from db0 db" and "predictions db0 = []" and "transactions db0 = []"
    and "p \<in> set (predictions db)" and "p_status p = ''completed''"
  shows "charged_once db p \<and>
         (\<exists>new. predictions (snd (create_prediction_sync request x_api_key env db)) =
                  predictions db @ new)"
  using reachable_settlement [OF assms(1-3)] assms(4,5)
    run_keeps_settlement [of db request x_api_key env]
  by blast

text \<open>Witness for C3: the row of one successful run on the seeded store.\<close>

theorem completed_charged_once_witness:
  "reachable_from db_seeded db_charged \<and> predictions db_seeded = [] \<and>
   transactions db_seeded = [] \<and> last (predictions db_charged) \<in> set (predictions db_charged) \<and>
   p_status (last (predictions db_charged)) = ''completed'' \<and>
   charged_once db_charged (last (predictions db_charged)) \<and>
   (\<exists>new. predictions (snd (create_prediction_sync request50 ''test-api-key-123''
              (env_of (Returned result_failure)) db_charged)) = predictions db_charged @ new)"
proof -
  have r: "reachable_from db_seeded db_charged"
    unfolding db_charged_def by (intro reachable_from.intros)
  have e: "predictions db_seeded = []" "transactions db_seeded = []"
    by (simp_all add: db_seeded_def initialize_sqlite_database_def)
  have t: "e_train (env_of (Returned result_ok)) = Returned result_ok" "pr_success result_ok"
    by (simp_all add: env_of_def result_ok_def)
  obtain row where "predictions db_charged = predictions db_seeded @ [row]"
    unfolding db_charged_def
    using run_returned_effect [OF gate_seeded t(1)] e by auto
  then have m: "last (predictions db_charged) \<in> set (predictions db_charged)"
    by simp
  have s: "p_status (last (predictions db_charged)) = ''completed''"
    unfolding db_charged_def using run_returned_last(2) [OF gate_seeded t(1)] t(2) by simp
  from completed_charged_once [OF r e m s, of request50 "''test-api-key-123''"
      "env_of (Returned result_failure)"] r e m s
  show ?thesis by simp
qed

subsection \<open>Balances stay non-negative\<close>

text \<open>
  C4. A run of the prediction endpoint keeps every user row in place and leaves a balance
  that was non-negative non-negative; a request whose quoted cost is above the balance is
  rejected with the store unchanged. \<^verbatim>\<open>spend_credits\<close> of the bot leaves credits that
  were non-negative non-negative, and returns \<^verbatim>\<open>None\<close> without any change when the
  credits are below the amount.
\<close>

theorem charge_keeps_balance_nonnegative:
  "list_all2 (\<lambda>row row'. u_id row' = u_id row \<and> (0 \<le> u_balance row \<longrightarrow> 0 \<le> u_balance row'))
     (users db) (users (snd (create_prediction_sync request x_api_key env db))) \<and>
   (\<forall>api_user model.
      get_by_api_key x_api_key db = Some api_user \<and> get_active_model db = Some model \<and>
      u_balance api_user <
        calculate_cost (m_base_price model) (m_epoch_price model) (r_epochs request) \<longrightarrow>
      (\<exists>exn. create_prediction_sync request x_api_key env db = (Inl exn, db))) \<and>
   (\<forall>tid user. us_users self tid = Some user \<and> 0 \<le> bu_credits user \<longrightarrow>
      (\<exists>user'. us_users (snd (spend_credits telegram_id amount utcnow self)) tid = Some user' \<and>
               0 \<le> bu_credits user')) \<and>
   (\<forall>user. us_users self telegram_id = Some user \<and> bu_credits user < amount \<longrightarrow>
      spend_credits telegram_id amount utcnow self = (None, self))"
proof (intro conjI allI impI)
  show "list_all2 (\<lambda>row row'. u_id row' = u_id row \<and> (0 \<le> u_balance row \<longrightarrow> 0 \<le> u_balance row'))
     (users db) (users (snd (create_prediction_sync request x_api_key env db)))"
  proof (cases "authorization_gate request x_api_key db")
    case (Inl exn)
    then show ?thesis
      by (simp add: run_rejected list_all2_same)
  next
    case (Inr a)
    then obtain api_user model total_cost where
      gate: "authorization_gate request x_api_key db = Inr (api_user, model, total_cost)"
      by (cases a) auto
    show ?thesis
    proof (cases "e_train env")
      case (Returned r)
      have "0 \<le> u_balance api_user - total_cost"
        using gate_Inr(6) [OF gate] by simp
      then show ?thesis
        by (simp add: run_returned_ledger(1) [OF gate Returned] list_all2_map2 list_all2_same)
    next
      case (Raised msg)
      then show ?thesis
        by (simp add: run_raised_ledger(1) [OF gate Raised] list_all2_same)
    qed
  qed
next
  fix api_user model
  assume "get_by_api_key x_api_key db = Some api_user \<and> get_active_model db = Some model \<and>
      u_balance api_user <
        calculate_cost (m_base_price model) (m_epoch_price model) (r_epochs request)"
  then show "\<exists>exn. create_prediction_sync request x_api_key env db = (Inl exn, db)"
    by (simp add: create_prediction_sync_def authorization_gate_def Let_def)
next
  fix tid user
  assume "us_users self tid = Some user \<and> 0 \<le> bu_credits user"
  then show "\<exists>user'. us_users (snd (spend_credits telegram_id amount utcnow self)) tid = Some user' \<and>
               0 \<le> bu_credits user'"
    by (auto simp: spend_credits_def append_credit_log_def Let_def split: option.splits)
next
  fix user
  assume "us_users self telegram_id = Some user \<and> bu_credits user < amount"
  then show "spend_credits telegram_id amount utcnow self = (None, self)"
    by (simp add: spend_credits_def)
qed

text \<open>
  Witness for C4: one charge on the seeded store, the scenario request against a balance
  of 0.05, and the bot user with five credits spending three and then seven.
\<close>

theorem charge_keeps_balance_nonnegative_witness:
  "map u_balance (users db_seeded) = [10] \<and>
   list_all (\<lambda>row. 0 \<le> u_balance row) (users (snd (create_prediction_sync request50
        ''test-api-key-123'' (env_of (Returned result_ok)) db_seeded))) \<and>
   (\<exists>exn. create_prediction_sync request50 ''test-api-key-123'' (env_of (Returned result_ok))
        (db_with_balance (5 / 100)) = (Inl exn, db_with_balance (5 / 100))) \<and>
   (\<exists>user'. us_users (snd (spend_credits ''42'' 3 ''t1'' bot_example)) ''42'' = Some user' \<and>
        0 \<le> bu_credits user') \<and>
   spend_credits ''42'' 7 ''t1'' bot_example = (None, bot_example)"
proof -
  have d: "map u_balance (users db_seeded) = [10]"
    by (simp add: db_seeded_def initialize_sqlite_database_def)
  have u: "get_by_api_key ''test-api-key-123'' (db_with_balance (5 / 100)) =
      Some (hd (users (db_with_balance (5 / 100))))"
    "u_balance (hd (users (db_with_balance (5 / 100)))) = 5 / 100"
    by (simp_all add: get_by_api_key_def example_unfold)
  have m: "get_active_model (db_with_balance (5 / 100)) = Some (hd (models db_seeded))"
    "calculate_cost (m_base_price (hd (models db_seeded))) (m_epoch_price (hd (models db_seeded)))
       (r_epochs request50) = 6 / 100"
    by (simp_all add: get_active_model_def calculate_cost_def example_unfold)
  have b: "\<exists>user. us_users bot_example ''42'' = Some user \<and> bu_credits user = 5"
    by (simp add: bot_example_def)
  note a = charge_keeps_balance_nonnegative [where db = db_seeded and request = request50
        and x_api_key = "''test-api-key-123''" and env = "env_of (Returned result_ok)"
        and self = bot_example and telegram_id = "''42''" and amount = 3 and utcnow = "''t1''"]
  note c = charge_keeps_balance_nonnegative [where db = "db_with_balance (5 / 100)"
        and request = request50
        and x_api_key = "''test-api-key-123''" and env = "env_of (Returned result_ok)"
        and self = bot_example and telegram_id = "''42''" and amount = 7 and utcnow = "''t1''"]
  have "list_all (\<lambda>row. 0 \<le> u_balance row) (users db_seeded)"
    by (simp add: db_seeded_def initialize_sqlite_database_def)
  with a [THEN conjunct1]
  have 1: "list_all (\<lambda>row. 0 \<le> u_balance row) (users (snd (create_prediction_sync request50
        ''test-api-key-123'' (env_of (Returned result_ok)) db_seeded)))"
    by (auto simp: list_all2_conv_all_nth list_all_length)
  have 2: "\<exists>exn. create_prediction_sync request50 ''test-api-key-123'' (env_of (Returned result_ok))
        (db_with_balance (5 / 100)) = (Inl exn, db_with_balance (5 / 100))"
    using c [THEN conjunct2, THEN conjunct1] u m by simp
  have 3: "\<exists>user'. us_users (snd (spend_credits ''42'' 3 ''t1'' bot_example)) ''42'' = Some user' \<and>
        0 \<le> bu_credits user'"
    using a [THEN conjunct2, THEN conjunct2, THEN conjunct1] b by auto
  have 4: "spend_credits ''42'' 7 ''t1'' bot_example = (None, bot_example)"
    using c [THEN conjunct2, THEN conjunct2, THEN conjunct2] b by auto
  from d 1 2 3 4 show ?thesis by blast
qed

subsection \<open>The authorization gate\<close>

text \<open>
  C6, as the code has it. The checks run in the order API key, user id,
  \<^verbatim>\<open>balance <= 0\<close>, active model, quote, \<^verbatim>\<open>balance < total_cost\<close>: each rejection is
  returned exactly when the earlier checks pass and its own fails, the zero-balance check
  comes before the lookup of the active model, the store is returned as it was, and the
  six error kinds are pairwise different. The last rejection carries the quoted cost and
  the balance.
\<close>

theorem gate_order:
  "(get_by_api_key x_api_key db = None \<longrightarrow>
      create_prediction_sync request x_api_key env db = (Inl InvalidCredential, db)) \<and>
   (\<forall>api_user. get_by_api_key x_api_key db = Some api_user \<longrightarrow>
      (u_id api_user \<noteq> Some (r_user_id request) \<longrightarrow>
         create_prediction_sync request x_api_key env db = (Inl AccountMismatch, db)) \<and>
      (u_id api_user = Some (r_user_id request) \<and> u_balance api_user \<le> 0 \<longrightarrow>
         create_prediction_sync request x_api_key env db = (Inl ZeroBalance, db)) \<and>
      (u_id api_user = Some (r_user_id request) \<and> 0 < u_balance api_user \<and>
       get_active_model db = None \<longrightarrow>
         create_prediction_sync request x_api_key env db = (Inl NoTierAvailable, db)) \<and>
      (\<forall>model. u_id api_user = Some (r_user_id request) \<and> 0 < u_balance api_user \<and>
         get_active_model db = Some model \<and>
         u_balance api_user <
           calculate_cost (m_base_price model) (m_epoch_price model) (r_epochs request) \<longrightarrow>
         create_prediction_sync request x_api_key env db =
           (Inl (InsufficientBalance
                   (calculate_cost (m_base_price model) (m_epoch_price model) (r_epochs request))
                   (u_balance api_user)), db))) \<and>
   distinct [InvalidCredential, AccountMismatch, ZeroBalance, NoTierAvailable,
             InsufficientBalance required available, WorkExecutionFailure e]"
  by (simp add: create_prediction_sync_def authorization_gate_def Let_def error_kinds)

text \<open>
  C6 as the specification words it fails: with a balance of zero and no active model the
  handler answers \<open>ZeroBalance\<close> (402), not \<open>NoTierAvailable\<close> (503).
\<close>

theorem gate_order_counterexample:
  "fst (create_prediction_sync request50 ''test-api-key-123'' (env_of (Returned result_ok))
          ((db_with_balance 0)\<lparr>models := []\<rparr>)) = Inl ZeroBalance \<and>
   ZeroBalance \<noteq> NoTierAvailable \<and>
   get_active_model ((db_with_balance 0)\<lparr>models := []\<rparr>) = None \<and>
   balance_of ((db_with_balance 0)\<lparr>models := []\<rparr>) 1 = Some 0"
  by (simp add: run_unfold example_unfold error_kinds balance_of_def)

text \<open>
  Witness for C6: one request for each of the five rejections, the last one the
  specification's scenario (balance 0.05, quoted cost 0.06).
\<close>

theorem gate_order_witness:
  "create_prediction_sync request50 ''wrong-key'' (env_of (Returned result_ok)) db_seeded
     = (Inl InvalidCredential, db_seeded) \<and>
   create_prediction_sync (request50\<lparr>r_user_id := 2\<rparr>) ''test-api-key-123''
       (env_of (Returned result_ok)) db_seeded
     = (Inl AccountMismatch, db_seeded) \<and>
   create_prediction_sync request50 ''test-api-key-123'' (env_of (Returned result_ok))
       (db_with_balance 0)
     = (Inl ZeroBalance, db_with_balance 0) \<and>
   create_prediction_sync request50 ''test-api-key-123'' (env_of (Returned result_ok))
       (db_seeded\<lparr>models := []\<rparr>)
     = (Inl NoTierAvailable, db_seeded\<lparr>models := []\<rparr>) \<and>
   create_prediction_sync request50 ''test-api-key-123'' (env_of (Returned result_ok))
       (db_with_balance (5 / 100))
     = (Inl (InsufficientBalance (6 / 100) (5 / 100)), db_with_balance (5 / 100))"
  using
    gate_order [of "''wrong-key''" db_seeded request50 "env_of (Returned result_ok)"]
    gate_order [of "''test-api-key-123''" db_seeded "request50\<lparr>r_user_id := 2\<rparr>"
       "env_of (Returned result_ok)"]
    gate_order [of "''test-api-key-123''" "db_with_balance 0" request50
       "env_of (Returned result_ok)"]
    gate_order [of "''test-api-key-123''" "db_seeded\<lparr>models := []\<rparr>" request50
       "env_of (Returned result_ok)"]
    gate_order [of "''test-api-key-123''" "db_with_balance (5 / 100)" request50
       "env_of (Returned result_ok)"]
  by (simp add: get_by_api_key_def get_active_model_def calculate_cost_def db_seeded_def
        db_with_balance_def initialize_sqlite_database_def physo_configs_def request50_def)

text \<open>
  C7. A run that ends in one of the five rejections of the gate returns the store it was
  given: no prediction row, no balance write, no ledger entry.
\<close>

theorem rejection_leaves_store:
  assumes "fst (create_prediction_sync request x_api_key env db) = Inl exn"
    and "gate_rejection exn"
  shows "snd (create_prediction_sync request x_api_key env db) = db"
proof (cases "authorization_gate request x_api_key db")
  case (Inl e)
  then show ?thesis by (simp add: run_rejected)
next
  case (Inr a)
  then obtain api_user model total_cost where
    gate: "authorization_gate request x_api_key db = Inr (api_user, model, total_cost)"
    by (cases a) auto
  show ?thesis
  proof (cases "e_train env")
    case (Returned r)
    from try_block_result obtain p csv where
      "fst (try_block request api_user total_cost (fst (admit request api_user model env db)) r env
         (snd (admit request api_user model env db))) = Inr (p, csv)"
      by blast
    with assms(1) show ?thesis
      by (simp add: run_returned [OF gate Returned])
  next
    case (Raised msg)
    with assms show ?thesis
      by (auto simp: run_raised [OF gate Raised] except_block_frame)
  qed
qed

text \<open>Witness for C7: a wrong API key against the seeded store.\<close>

theorem rejection_leaves_store_witness:
  "fst (create_prediction_sync request50 ''wrong-key'' (env_of (Returned result_ok)) db_seeded)
     = Inl InvalidCredential \<and>
   gate_rejection InvalidCredential \<and>
   snd (create_prediction_sync request50 ''wrong-key'' (env_of (Returned result_ok)) db_seeded)
     = db_seeded"
proof -
  have a: "fst (create_prediction_sync request50 ''wrong-key'' (env_of (Returned result_ok)) db_seeded)
     = Inl InvalidCredential"
    by (simp add: run_unfold example_unfold error_kinds)
  have b: "gate_rejection InvalidCredential"
    by (simp add: error_kinds)
  from rejection_leaves_store [OF a b] a b show ?thesis by simp
qed

subsection \<open>Pricing\<close>

text \<open>
  C8. \<open>calculate_cost\<close> is the base price plus the epoch price times the number of
  epochs, for every number of epochs; being a function, equal arguments give equal
  results. The value the gate compares with the balance is the value stored as the row's
  total cost and, negated, as the amount of the ledger entry of the run.
\<close>

theorem quote_formula:
  "calculate_cost base_price epoch_price n = base_price + epoch_price * real_of_int n \<and>
   (\<forall>api_user model pred csv.
      get_by_api_key x_api_key db = Some api_user \<and> get_active_model db = Some model \<and>
      fst (create_prediction_sync request x_api_key env db) = Inr (pred, csv) \<longrightarrow>
        calculate_cost (m_base_price model) (m_epoch_price model) (r_epochs request)
           \<le> u_balance api_user \<and>
        p_total_cost pred =
          Some (calculate_cost (m_base_price model) (m_epoch_price model) (r_epochs request)) \<and>
        t_amount (last (transactions (snd (create_prediction_sync request x_api_key env db)))) =
          - calculate_cost (m_base_price model) (m_epoch_price model) (r_epochs request))"
proof (intro conjI allI impI)
  show "calculate_cost base_price epoch_price n = base_price + epoch_price * real_of_int n"
    by (simp add: calculate_cost_def)
next
  fix api_user model pred csv
  assume h: "get_by_api_key x_api_key db = Some api_user \<and> get_active_model db = Some model \<and>
      fst (create_prediction_sync request x_api_key env db) = Inr (pred, csv)"
  let ?c = "calculate_cost (m_base_price model) (m_epoch_price model) (r_epochs request)"
  have gate: "authorization_gate request x_api_key db = Inr (api_user, model, ?c)"
  proof (cases "authorization_gate request x_api_key db")
    case (Inl exn)
    with h show ?thesis by (simp add: run_rejected)
  next
    case (Inr a)
    obtain u m c where a: "a = (u, m, c)" by (cases a)
    from gate_Inr [OF Inr [unfolded a]] h show ?thesis
      using Inr a by simp
  qed
  obtain r where ret: "e_train env = Returned r"
  proof (cases "e_train env")
    case (Raised msg)
    with h show ?thesis
      by (simp add: run_raised [OF gate Raised] except_block_frame)
  qed
  let ?a = "admit request api_user model env db"
  have run: "create_prediction_sync request x_api_key env db =
     try_block request api_user ?c (fst ?a) r env (snd ?a)"
    using gate ret by (rule run_returned)
  show "?c \<le> u_balance api_user"
    using gate_Inr(6) [OF gate] .
  show "p_total_cost pred = Some ?c"
    using h try_block_result [of request api_user ?c "fst ?a" r env "snd ?a"]
    by (auto simp: run)
  show "t_amount (last (transactions (snd (create_prediction_sync request x_api_key env db)))) = - ?c"
    by (simp add: run try_block_frame)
qed

text \<open>Witness for C8: the scenario request on the seeded store, quoted 0.06.\<close>

theorem quote_formula_witness:
  "calculate_cost (1 / 100) (1 / 1000) 50 = 6 / 100 \<and>
   (\<exists>pred csv.
      fst (create_prediction_sync request50 ''test-api-key-123'' (env_of (Returned result_ok))
             db_seeded) = Inr (pred, csv) \<and>
      p_total_cost pred = Some (6 / 100)) \<and>
   t_amount (last (transactions (snd (create_prediction_sync request50 ''test-api-key-123''
      (env_of (Returned result_ok)) db_seeded)))) = - (6 / 100)"
proof -
  let ?run = "create_prediction_sync request50 ''test-api-key-123'' (env_of (Returned result_ok)) db_seeded"
  obtain pred csv where r: "fst ?run = Inr (pred, csv)"
    by (simp add: run_unfold example_unfold)
  have u: "get_by_api_key ''test-api-key-123'' db_seeded = Some (hd (users db_seeded))"
    by (simp add: get_by_api_key_def example_unfold)
  have m: "get_active_model db_seeded = Some (hd (models db_seeded))"
    by (simp add: get_active_model_def example_unfold)
  have e: "r_epochs request50 = 50" "m_base_price (hd (models db_seeded)) = 1 / 100"
    "m_epoch_price (hd (models db_seeded)) = 1 / 1000"
    by (simp_all add: example_unfold)
  from quote_formula [of "1 / 100" "1 / 1000" 50 "''test-api-key-123''" db_seeded request50
      "env_of (Returned result_ok)"] u m r e
  show ?thesis by simp
qed

subsection \<open>The prediction repository\<close>

text \<open>
  C10. \<^verbatim>\<open>SQLitePredictionRepository.update\<close> leaves the columns \<^verbatim>\<open>id\<close>, \<^verbatim>\<open>uuid\<close>,
  \<^verbatim>\<open>user_id\<close>, \<^verbatim>\<open>model_id\<close> and \<^verbatim>\<open>created_at\<close> of every stored row as they were, for any
  entity passed to it.
\<close>

theorem update_keeps_identity:
  "map p_id (predictions (snd (prediction_update prediction db))) = map p_id (predictions db) \<and>
   map p_uuid (predictions (snd (prediction_update prediction db))) = map p_uuid (predictions db) \<and>
   map p_user_id (predictions (snd (prediction_update prediction db))) = map p_user_id (predictions db) \<and>
   map p_model_id (predictions (snd (prediction_update prediction db))) = map p_model_id (predictions db) \<and>
   map p_created_at (predictions (snd (prediction_update prediction db))) = map p_created_at (predictions db)"
  by (simp add: prediction_update_def Let_def comp_def)

end
